theory Spec2Isabelle
  imports Main
begin


section \<open>JavaScript values\<close>

text \<open>
  The frames exchanged with the television are JSON texts. \<open>JSON.parse\<close> gives a
  JavaScript value; \<open>JUndefined\<close> is what reading an absent property gives. Numbers are
  restricted to integers. An object is the list of its own properties, each key once.
\<close>

datatype jsval =
    JUndefined
  | JNull
  | JBool bool
  | JNum int
  | JStr string
  | JArr "jsval list"
  | JObj "(string \<times> jsval) list"

text \<open>Truthiness, as \<open>if (x)\<close>, \<open>x && y\<close>, \<open>x || y\<close> and \<open>!x\<close> read it.\<close>

fun truthy :: "jsval \<Rightarrow> bool" where
  "truthy JUndefined = False"
| "truthy JNull = False"
| "truthy (JBool b) = b"
| "truthy (JNum n) = (n \<noteq> 0)"
| "truthy (JStr s) = (s \<noteq> [])"
| "truthy (JArr _) = True"
| "truthy (JObj _) = True"

definition js_or :: "jsval \<Rightarrow> jsval \<Rightarrow> jsval" where
  "js_or a b = (if truthy a then a else b)"

text \<open>
  \<open>x.k\<close>: a TypeError (\<open>None\<close>) on \<open>null\<close> and \<open>undefined\<close>, the property of an
  object, \<open>undefined\<close> on everything else (none of the keys read by the client is a
  property of a string, number, boolean or array).
\<close>

fun get_prop :: "jsval \<Rightarrow> string \<Rightarrow> jsval option" where
  "get_prop JUndefined k = None"
| "get_prop JNull k = None"
| "get_prop (JObj kvs) k = (case map_of kvs k of Some v \<Rightarrow> Some v | None \<Rightarrow> Some JUndefined)"
| "get_prop _ k = Some JUndefined"

text \<open>\<open>x?.k\<close>: \<open>undefined\<close> instead of the TypeError.\<close>

definition opt_prop :: "jsval \<Rightarrow> string \<Rightarrow> jsval" where
  "opt_prop x k = (case get_prop x k of None \<Rightarrow> JUndefined | Some v \<Rightarrow> v)"

text \<open>\<open>String(x)\<close>, which is what \<open>new Error(x)\<close> stores as the message.\<close>

fun digits :: "nat \<Rightarrow> string" where
  "digits n = (if n < 10 then [char_of (48 + n)] else digits (n div 10) @ [char_of (48 + n mod 10)])"

declare digits.simps [simp del]

definition int_string :: "int \<Rightarrow> string" where
  "int_string i = (if i < 0 then CHR ''-'' # digits (nat (- i)) else digits (nat i))"

fun join_comma :: "string list \<Rightarrow> string" where
  "join_comma [] = []"
| "join_comma [s] = s"
| "join_comma (s # t # ss) = s @ '','' @ join_comma (t # ss)"

fun String_of :: "jsval \<Rightarrow> string" where
  "String_of JUndefined = ''undefined''"
| "String_of JNull = ''null''"
| "String_of (JBool b) = (if b then ''true'' else ''false'')"
| "String_of (JNum n) = int_string n"
| "String_of (JStr s) = s"
| "String_of (JArr xs) =
     join_comma (map (\<lambda>x. if x = JNull \<or> x = JUndefined then [] else String_of x) xs)"
| "String_of (JObj _) = ''[object Object]''"

text \<open>\<open>Map.has\<close> and \<open>Map.get\<close> on a map whose keys are strings: only a string finds one.\<close>

definition map_has :: "(string \<rightharpoonup> 'a) \<Rightarrow> jsval \<Rightarrow> bool" where
  "map_has m k = (case k of JStr s \<Rightarrow> m s \<noteq> None | _ \<Rightarrow> False)"

definition map_get :: "(string \<rightharpoonup> 'a) \<Rightarrow> jsval \<Rightarrow> 'a option" where
  "map_get m k = (case k of JStr s \<Rightarrow> m s | _ \<Rightarrow> None)"

definition map_delete :: "(string \<rightharpoonup> 'a) \<Rightarrow> string \<Rightarrow> (string \<rightharpoonup> 'a)" where
  "map_delete m k = m(k := None)"

section \<open>The device session (\<open>LGTVClient\<close>, src/tv/client.ts)\<close>

text \<open>
  A promise is named by a number, given out in order. The closures that the client stores
  in \<open>pendingRequests\<close> and hands to \<open>setTimeout\<close>/\<open>setInterval\<close> are named by the
  method that builds them, with the variables they capture: the frame id and the promise
  whose \<open>resolve\<close>/\<open>reject\<close> they hold.
\<close>

datatype ready_state = CONNECTING | OPEN | CLOSING | CLOSED

datatype handler =
    RequestHandler string nat
  | InitRegHandler string nat
  | StoredKeyHandler string nat

datatype timer =
    ConnectTimeout nat
  | RequestTimeout string nat
  | RegistrationTimeout string nat
  | AuthTimeout string nat
  | PairingPoll nat nat
  | PairingTimeout nat nat

datatype log_line =
    TVMessageLine jsval
  | UnhandledMessage jsval
  | ParseFailure

text \<open>
  Everything the session does to the outside is appended to a trace: frames written to the
  socket, calls of \<open>resolve\<close> and \<open>reject\<close> (every call, also one on a promise that is
  already settled), calls of a subscription callback, console lines of the frame handler,
  and the closing of the two sockets. The two lines that \<open>handleMessage\<close> prints for a
  parsed frame, one after the other with nothing between them, are the single line
  \<open>TVMessageLine\<close>.
\<close>

datatype effect =
    Send jsval
  | Resolve nat jsval
  | Reject nat string
  | Callback nat jsval
  | Console log_line
  | WsClose
  | PointerClose

record session =
  ws :: "ready_state option"
  config_ip :: string
  config_secure :: bool
  pendingRequests :: "string \<rightharpoonup> handler"
  subscriptions :: "string \<rightharpoonup> nat"
  clientKey :: jsval
  pointerSocket :: "ready_state option"
  pointerSocketPath :: "string option"
  pendingRegistrationId :: "string option"
  connectPromise :: "nat option"
  connected :: bool
  connectTimeout :: "nat option"
  timers :: "(nat \<times> nat \<times> bool \<times> timer) list"
  next_timer :: nat
  next_promise :: nat
  trace :: "effect list"

text \<open>
  The constructor: \<open>this.clientKey = config.clientKey || null\<close>; no socket, empty maps.
  \<open>timers\<close> holds the armed timers as (handle, delay in ms, repeating, closure).
  \<open>connectPromise\<close>, \<open>connected\<close> and \<open>connectTimeout\<close> are the variables that the
  socket's listeners capture in \<open>connect\<close>.
\<close>

definition new_LGTVClient :: "string \<Rightarrow> bool \<Rightarrow> jsval \<Rightarrow> session" where
  "new_LGTVClient ip sec key =
     \<lparr> ws = None, config_ip = ip, config_secure = sec,
       pendingRequests = Map.empty, subscriptions = Map.empty,
       clientKey = js_or key JNull,
       pointerSocket = None, pointerSocketPath = None, pendingRegistrationId = None,
       connectPromise = None, connected = False, connectTimeout = None,
       timers = [], next_timer = 0, next_promise = 0, trace = [] \<rparr>"

definition emit :: "effect \<Rightarrow> session \<Rightarrow> session" where
  "emit e s = s\<lparr>trace := trace s @ [e]\<rparr>"

definition resolve :: "nat \<Rightarrow> jsval \<Rightarrow> session \<Rightarrow> session" where
  "resolve p v s = emit (Resolve p v) s"

definition reject :: "nat \<Rightarrow> string \<Rightarrow> session \<Rightarrow> session" where
  "reject p msg s = emit (Reject p msg) s"

definition new_promise :: "session \<Rightarrow> nat \<times> session" where
  "new_promise s = (next_promise s, s\<lparr>next_promise := Suc (next_promise s)\<rparr>)"

definition setTimeout :: "timer \<Rightarrow> nat \<Rightarrow> session \<Rightarrow> session" where
  "setTimeout t ms s =
     s\<lparr>timers := timers s @ [(next_timer s, ms, False, t)], next_timer := Suc (next_timer s)\<rparr>"

definition setInterval :: "timer \<Rightarrow> nat \<Rightarrow> session \<Rightarrow> session" where
  "setInterval t ms s =
     s\<lparr>timers := timers s @ [(next_timer s, ms, True, t)], next_timer := Suc (next_timer s)\<rparr>"

definition clearInterval :: "nat \<Rightarrow> session \<Rightarrow> session" where
  "clearInterval h s = s\<lparr>timers := filter (\<lambda>t. fst t \<noteq> h) (timers s)\<rparr>"

text \<open>
  \<open>send\<close>: throws \<open>Not connected\<close> (\<open>None\<close>) unless the socket exists and is open,
  otherwise writes the frame.
\<close>

definition send :: "jsval \<Rightarrow> session \<Rightarrow> session option" where
  "send message s =
     (if ws s = None \<or> ws s \<noteq> Some OPEN then None else Some (emit (Send message) s))"

text \<open>
  The closure that \<open>request\<close> stores: it removes its own entry, then settles the promise by
  the kind of frame. The frame is not \<open>null\<close> here (its id was read), so reading \<open>type\<close>
  and \<open>error\<close> cannot throw.
\<close>

definition request_handler :: "string \<Rightarrow> nat \<Rightarrow> jsval \<Rightarrow> session \<Rightarrow> session" where
  "request_handler rid p response s =
     (let s1 = s\<lparr>pendingRequests := map_delete (pendingRequests s) rid\<rparr> in
      if opt_prop response ''type'' = JStr ''error'' then
        reject p (String_of (js_or (opt_prop response ''error'') (JStr ''Request failed''))) s1
      else if opt_prop (opt_prop response ''payload'') ''returnValue'' = JBool False then
        reject p (String_of (js_or (opt_prop (opt_prop response ''payload'') ''errorText'')
                                   (JStr ''Command failed''))) s1
      else resolve p (opt_prop response ''payload'') s1)"

text \<open>
  \<open>checkResponse\<close> of \<open>initiateRegistration\<close>. In the \<open>registered\<close> branch
  \<open>msg.payload["client-key"]\<close> throws a TypeError (\<open>None\<close>) when the frame has no payload,
  before anything is changed.
\<close>

definition init_reg_handler :: "string \<Rightarrow> nat \<Rightarrow> jsval \<Rightarrow> session \<Rightarrow> session option" where
  "init_reg_handler rid p msg s =
     (if opt_prop msg ''type'' = JStr ''response''
         \<and> opt_prop (opt_prop msg ''payload'') ''pairingType'' = JStr ''PIN'' then
        Some (resolve p (JObj [(''requiresPIN'', JBool True)]) s)
      else if opt_prop msg ''type'' = JStr ''response''
         \<and> opt_prop (opt_prop msg ''payload'') ''pairingType'' = JStr ''PROMPT'' then
        Some s
      else if opt_prop msg ''type'' = JStr ''registered'' then
        (case get_prop (opt_prop msg ''payload'') ''client-key'' of
           None \<Rightarrow> None
         | Some k \<Rightarrow>
             Some (s\<lparr>clientKey := k,
                     pendingRequests := map_delete (pendingRequests s) rid,
                     pendingRegistrationId := None\<rparr>))
      else if opt_prop msg ''type'' = JStr ''error'' then
        Some (reject p (String_of (js_or (opt_prop msg ''error'') (JStr ''Registration failed'')))
                (s\<lparr>pendingRequests := map_delete (pendingRequests s) rid,
                   pendingRegistrationId := None\<rparr>))
      else Some s)"

text \<open>\<open>checkResponse\<close> of \<open>registerWithStoredKey\<close>.\<close>

definition stored_key_handler :: "string \<Rightarrow> nat \<Rightarrow> jsval \<Rightarrow> session \<Rightarrow> session" where
  "stored_key_handler rid p msg s =
     (if opt_prop msg ''type'' = JStr ''registered'' then
        resolve p (js_or (clientKey s) (JStr ''''))
          (s\<lparr>pendingRequests := map_delete (pendingRequests s) rid\<rparr>)
      else if opt_prop msg ''type'' = JStr ''error'' then
        reject p (String_of (js_or (opt_prop msg ''error'') (JStr ''Authentication failed'')))
          (s\<lparr>pendingRequests := map_delete (pendingRequests s) rid\<rparr>)
      else s)"

fun run_handler :: "handler \<Rightarrow> jsval \<Rightarrow> session \<Rightarrow> session option" where
  "run_handler (RequestHandler rid p) msg s = Some (request_handler rid p msg s)"
| "run_handler (InitRegHandler rid p) msg s = init_reg_handler rid p msg s"
| "run_handler (StoredKeyHandler rid p) msg s = Some (stored_key_handler rid p msg s)"

text \<open>
  \<open>handleMessage\<close>. \<open>JSON.parse\<close> is a parameter: \<open>None\<close> is its SyntaxError. The whole
  body is inside \<open>try\<close>: the SyntaxError, the TypeError of reading \<open>id\<close> from \<open>null\<close> and
  an exception of a handler all end in the \<open>catch\<close>, which prints one line.
\<close>

definition handleMessage :: "(string \<Rightarrow> jsval option) \<Rightarrow> string \<Rightarrow> session \<Rightarrow> session" where
  "handleMessage parse data s =
     (case parse data of
        None \<Rightarrow> emit (Console ParseFailure) s
      | Some message \<Rightarrow>
          (let s1 = emit (Console (TVMessageLine message)) s in
           case get_prop message ''id'' of
             None \<Rightarrow> emit (Console ParseFailure) s1
           | Some mid \<Rightarrow>
               if truthy mid \<and> map_has (pendingRequests s1) mid then
                 (case map_get (pendingRequests s1) mid of
                    None \<Rightarrow> s1
                  | Some h \<Rightarrow>
                      (case run_handler h message s1 of
                         None \<Rightarrow> emit (Console ParseFailure) s1
                       | Some s2 \<Rightarrow> s2))
               else if truthy mid \<and> map_has (subscriptions s1) mid then
                 (case map_get (subscriptions s1) mid of
                    None \<Rightarrow> s1
                  | Some cb \<Rightarrow> emit (Callback cb (opt_prop message ''payload'')) s1)
               else emit (Console (UnhandledMessage message)) s1))"

subsection \<open>Requests, subscriptions, registration\<close>

text \<open>
  The registration payload. No branch of the client reads inside the vendor's manifest;
  its two permission lists, the localized names and the signature string are left out of
  the constant below.
\<close>

definition SIGNED_MANIFEST :: jsval where
  "SIGNED_MANIFEST =
     JObj [(''manifestVersion'', JNum 1), (''appVersion'', JStr ''1.1''),
           (''signed'', JObj [(''created'', JStr ''20140509''), (''appId'', JStr ''com.lge.test''),
                             (''vendorId'', JStr ''com.lge''),
                             (''serial'', JStr ''2f930e2d2cfe083771f68e4fe7bb07'')])]"

definition REGISTRATION_MANIFEST :: "(string \<times> jsval) list" where
  "REGISTRATION_MANIFEST =
     [(''forcePairing'', JBool False), (''pairingType'', JStr ''PIN''),
      (''manifest'', SIGNED_MANIFEST)]"

text \<open>
  \<open>request\<close>. The first argument is what \<open>randomUUID()\<close> returns. The result is the promise
  and the session afterwards. When \<open>send\<close> throws inside the promise's executor the promise
  is rejected, the entry stays in the map and no timer is armed.
\<close>

definition request :: "string \<Rightarrow> string \<Rightarrow> jsval \<Rightarrow> session \<Rightarrow> nat \<times> session" where
  "request uuid uri payload s =
     (let (p, s0) = new_promise s in
      if ws s0 = None then (p, reject p ''Not connected'' s0)
      else
        let message = JObj [(''type'', JStr ''request''), (''id'', JStr uuid),
                            (''uri'', JStr uri), (''payload'', js_or payload (JObj []))];
            s1 = s0\<lparr>pendingRequests := (pendingRequests s0)(uuid \<mapsto> RequestHandler uuid p)\<rparr>
        in case send message s1 of
             None \<Rightarrow> (p, reject p ''Not connected'' s1)
           | Some s2 \<Rightarrow> (p, setTimeout (RequestTimeout uuid p) 10000 s2))"

text \<open>\<open>subscribe\<close>: registers the callback, writes the frame, returns the id at once.\<close>

definition subscribe :: "string \<Rightarrow> string \<Rightarrow> nat \<Rightarrow> session \<Rightarrow> nat \<times> session" where
  "subscribe uuid uri cb s =
     (let (p, s0) = new_promise s in
      if ws s0 = None then (p, reject p ''Not connected'' s0)
      else
        let s1 = s0\<lparr>subscriptions := (subscriptions s0)(uuid \<mapsto> cb)\<rparr>;
            message = JObj [(''type'', JStr ''subscribe''), (''id'', JStr uuid), (''uri'', JStr uri)]
        in case send message s1 of
             None \<Rightarrow> (p, reject p ''Not connected'' s1)
           | Some s2 \<Rightarrow> (p, resolve p (JStr uuid) s2))"

text \<open>
  \<open>unsubscribe\<close> is synchronous: it deletes the handle, then calls \<open>send\<close> with no
  \<open>try\<close> around it. The first component is the exception that reaches the caller.
\<close>

definition unsubscribe :: "string \<Rightarrow> string \<Rightarrow> session \<Rightarrow> string option \<times> session" where
  "unsubscribe subscriptionId uri s =
     (let s1 = s\<lparr>subscriptions := map_delete (subscriptions s) subscriptionId\<rparr>;
          message = JObj [(''type'', JStr ''unsubscribe''), (''id'', JStr subscriptionId),
                          (''uri'', JStr uri)]
      in case send message s1 of
           None \<Rightarrow> (Some ''Not connected'', s1)
         | Some s2 \<Rightarrow> (None, s2))"

definition disconnect :: "session \<Rightarrow> session" where
  "disconnect s =
     (let s1 = (if pointerSocket s \<noteq> None
                then (emit PointerClose s)\<lparr>pointerSocket := None, pointerSocketPath := None\<rparr>
                else s)
      in if ws s1 \<noteq> None then (emit WsClose s1)\<lparr>ws := None\<rparr> else s1)"

definition registration_payload :: "session \<Rightarrow> jsval" where
  "registration_payload s =
     (if truthy (clientKey s) then JObj (REGISTRATION_MANIFEST @ [(''client-key'', clientKey s)])
      else JObj REGISTRATION_MANIFEST)"

definition initiateRegistration :: "string \<Rightarrow> session \<Rightarrow> nat \<times> session" where
  "initiateRegistration uuid s =
     (let (p, s0) = new_promise s in
      if ws s0 = None then (p, reject p ''Not connected'' s0)
      else
        let message = JObj [(''type'', JStr ''register''), (''id'', JStr uuid),
                            (''payload'', registration_payload s0)];
            s1 = s0\<lparr>pendingRegistrationId := Some uuid\<rparr>;
            s2 = s1\<lparr>pendingRequests := (pendingRequests s1)(uuid \<mapsto> InitRegHandler uuid p)\<rparr>
        in case send message s2 of
             None \<Rightarrow> (p, reject p ''Not connected'' s2)
           | Some s3 \<Rightarrow> (p, setTimeout (RegistrationTimeout uuid p) 60000 s3))"

text \<open>\<open>!this.pendingRegistrationId\<close>: \<open>null\<close> and the empty string are falsy.\<close>

definition id_truthy :: "string option \<Rightarrow> bool" where
  "id_truthy x = (case x of None \<Rightarrow> False | Some i \<Rightarrow> i \<noteq> [])"

text \<open>
  \<open>completePairing\<close>: writes the \<open>setPin\<close> request under an id that is not registered in
  \<open>pendingRequests\<close>, then polls \<open>pendingRegistrationId\<close> every 100 ms and arms a timer
  of 30 s.
\<close>

definition completePairing :: "string \<Rightarrow> string \<Rightarrow> session \<Rightarrow> nat \<times> session" where
  "completePairing uuid pin s =
     (let (p, s0) = new_promise s in
      if ws s0 = None then (p, reject p ''Not connected'' s0)
      else if \<not> id_truthy (pendingRegistrationId s0) then
        (p, reject p ''No pending registration. Call initiateRegistration() first.'' s0)
      else
        let message = JObj [(''type'', JStr ''request''), (''id'', JStr uuid),
                            (''uri'', JStr ''ssap://pairing/setPin''),
                            (''payload'', JObj [(''pin'', JStr pin)])]
        in case send message s0 of
             None \<Rightarrow> (p, reject p ''Not connected'' s0)
           | Some s1 \<Rightarrow>
               (let checkInterval = next_timer s1;
                    s2 = setInterval (PairingPoll checkInterval p) 100 s1
                in (p, setTimeout (PairingTimeout checkInterval p) 30000 s2)))"

definition registerWithStoredKey :: "string \<Rightarrow> session \<Rightarrow> nat \<times> session" where
  "registerWithStoredKey uuid s =
     (let (p, s0) = new_promise s in
      if ws s0 = None then (p, reject p ''Not connected'' s0)
      else if \<not> truthy (clientKey s0) then (p, reject p ''No client-key available'' s0)
      else
        let message = JObj [(''type'', JStr ''register''), (''id'', JStr uuid),
                            (''payload'', JObj (REGISTRATION_MANIFEST @ [(''client-key'', clientKey s0)]))];
            s1 = s0\<lparr>pendingRequests := (pendingRequests s0)(uuid \<mapsto> StoredKeyHandler uuid p)\<rparr>
        in case send message s1 of
             None \<Rightarrow> (p, reject p ''Not connected'' s1)
           | Some s2 \<Rightarrow> (p, setTimeout (AuthTimeout uuid p) 10000 s2))"


subsection \<open>Connecting\<close>

definition connect_url :: "session \<Rightarrow> string" where
  "connect_url s =
     (if config_secure s then ''wss'' else ''ws'') @ ''://'' @ config_ip s @ '':'' @
     (if config_secure s then ''3001'' else ''3000'') @ ''/''"

definition clearTimeout :: "nat option \<Rightarrow> session \<Rightarrow> session" where
  "clearTimeout h s = (case h of None \<Rightarrow> s | Some t \<Rightarrow> clearInterval t s)"

text \<open>
  \<open>connect\<close> creates the socket, arms the timer of 10 s and registers the four listeners
  below. (A constructor that throws on a malformed URL is not modelled.)
\<close>

definition connect :: "session \<Rightarrow> nat \<times> session" where
  "connect s =
     (let (p, s0) = new_promise s;
          s1 = s0\<lparr>ws := Some CONNECTING, connectPromise := Some p, connected := False\<rparr>;
          h = next_timer s1;
          s2 = setTimeout (ConnectTimeout p) 10000 s1
      in (p, s2\<lparr>connectTimeout := Some h\<rparr>))"

text \<open>The socket's own state changes with its events; \<open>this.ws\<close> may be \<open>null\<close> by then.\<close>

definition set_ready_state :: "ready_state \<Rightarrow> session \<Rightarrow> session" where
  "set_ready_state r s = (if ws s = None then s else s\<lparr>ws := Some r\<rparr>)"

definition on_open :: "session \<Rightarrow> session" where
  "on_open s =
     (case connectPromise s of
        None \<Rightarrow> s
      | Some p \<Rightarrow>
          resolve p JUndefined
            (clearTimeout (connectTimeout s) (set_ready_state OPEN (s\<lparr>connected := True\<rparr>))))"

definition on_error :: "string \<Rightarrow> session \<Rightarrow> session" where
  "on_error message s =
     (case connectPromise s of
        None \<Rightarrow> s
      | Some p \<Rightarrow>
          (let s1 = clearTimeout (connectTimeout s) s in
           if \<not> connected s1 then
             reject p (''Failed to connect to '' @ connect_url s1 @ '': '' @ message) s1
           else s1))"

definition on_close :: "nat \<Rightarrow> string \<Rightarrow> session \<Rightarrow> session" where
  "on_close code reason s =
     (case connectPromise s of
        None \<Rightarrow> s
      | Some p \<Rightarrow>
          (let s1 = clearTimeout (connectTimeout s) (set_ready_state CLOSED s) in
           if \<not> connected s1 then
             reject p (''Connection closed before handshake. Code: '' @ digits code @
                       '', Reason: '' @ (if reason \<noteq> [] then reason else ''Unknown'')) s1
           else s1))"

subsection \<open>Timers\<close>

text \<open>The bodies of the closures given to \<open>setTimeout\<close> and \<open>setInterval\<close>.\<close>

fun run_timer :: "timer \<Rightarrow> session \<Rightarrow> session" where
  "run_timer (ConnectTimeout p) s =
     (if \<not> connected s then
        reject p ''Connection timeout after 10 seconds''
          (if ws s \<noteq> None then emit WsClose (set_ready_state CLOSING s) else s)
      else s)"
| "run_timer (RequestTimeout rid p) s =
     (if pendingRequests s rid \<noteq> None then
        reject p ''Request timeout'' (s\<lparr>pendingRequests := map_delete (pendingRequests s) rid\<rparr>)
      else s)"
| "run_timer (RegistrationTimeout rid p) s =
     (if pendingRequests s rid \<noteq> None \<and> \<not> truthy (clientKey s) then
        reject p ''Registration timeout''
          (s\<lparr>pendingRequests := map_delete (pendingRequests s) rid, pendingRegistrationId := None\<rparr>)
      else s)"
| "run_timer (AuthTimeout rid p) s =
     (if pendingRequests s rid \<noteq> None then
        reject p ''Authentication timeout'' (s\<lparr>pendingRequests := map_delete (pendingRequests s) rid\<rparr>)
      else s)"
| "run_timer (PairingPoll checkInterval p) s =
     (if \<not> id_truthy (pendingRegistrationId s) then
        (let s1 = clearInterval checkInterval s in
         if truthy (clientKey s1) then resolve p (clientKey s1) s1
         else reject p ''Pairing failed'' s1)
      else s)"
| "run_timer (PairingTimeout checkInterval p) s =
     (let s1 = clearInterval checkInterval s in
      if id_truthy (pendingRegistrationId s1) then reject p ''PIN entry timeout'' s1 else s1)"

text \<open>
  The event loop fires an armed timer: a timeout is disarmed first, an interval stays
  armed. Which timer fires when is the environment's choice; the delay is kept with the
  timer.
\<close>

definition fire :: "nat \<Rightarrow> session \<Rightarrow> session" where
  "fire h s =
     (case find (\<lambda>t. fst t = h) (timers s) of
        None \<Rightarrow> s
      | Some (_, _, repeating, t) \<Rightarrow>
          run_timer t (if repeating then s else clearInterval h s))"

subsection \<open>Runs of a session\<close>

datatype event =
    Open_ev
  | Error_ev string
  | Close_ev nat string
  | Message string
  | Fire nat
  | CallConnect
  | CallRequest string string jsval
  | CallSubscribe string string nat
  | CallUnsubscribe string string
  | CallDisconnect
  | CallInitiateRegistration string
  | CallCompletePairing string string
  | CallRegisterWithStoredKey string

fun step :: "(string \<Rightarrow> jsval option) \<Rightarrow> event \<Rightarrow> session \<Rightarrow> session" where
  "step parse Open_ev s = on_open s"
| "step parse (Error_ev message) s = on_error message s"
| "step parse (Close_ev code reason) s = on_close code reason s"
| "step parse CallConnect s = snd (connect s)"
| "step parse (Message data) s = handleMessage parse data s"
| "step parse (Fire h) s = fire h s"
| "step parse (CallRequest uuid uri payload) s = snd (request uuid uri payload s)"
| "step parse (CallSubscribe uuid uri cb) s = snd (subscribe uuid uri cb s)"
| "step parse (CallUnsubscribe sid uri) s = snd (unsubscribe sid uri s)"
| "step parse CallDisconnect s = disconnect s"
| "step parse (CallInitiateRegistration uuid) s = snd (initiateRegistration uuid s)"
| "step parse (CallCompletePairing uuid pin) s = snd (completePairing uuid pin s)"
| "step parse (CallRegisterWithStoredKey uuid) s = snd (registerWithStoredKey uuid s)"

fun run :: "(string \<Rightarrow> jsval option) \<Rightarrow> event list \<Rightarrow> session \<Rightarrow> session" where
  "run parse [] s = s"
| "run parse (e # es) s = run parse es (step parse e s)"

text \<open>
  The state of a promise is decided by the first call of its \<open>resolve\<close> or \<open>reject\<close>;
  later calls do nothing.
\<close>

datatype settlement = Fulfilled jsval | Rejected string

fun settles :: "nat \<Rightarrow> effect \<Rightarrow> bool" where
  "settles p (Resolve q v) = (p = q)"
| "settles p (Reject q m) = (p = q)"
| "settles p _ = False"

fun promise_state :: "effect list \<Rightarrow> nat \<Rightarrow> settlement option" where
  "promise_state [] p = None"
| "promise_state (Resolve q v # es) p = (if p = q then Some (Fulfilled v) else promise_state es p)"
| "promise_state (Reject q m # es) p = (if p = q then Some (Rejected m) else promise_state es p)"
| "promise_state (_ # es) p = promise_state es p"

text \<open>
  \<open>await\<close>: the caller of an asynchronous method goes on as soon as the promise is
  settled; until then the session takes the next event of the environment. \<open>None\<close>: the
  promise is not settled by the events given.
\<close>

fun await :: "(string \<Rightarrow> jsval option) \<Rightarrow> nat \<Rightarrow> event list \<Rightarrow> session \<Rightarrow>
    (settlement \<times> session \<times> event list) option" where
  "await parse p [] s =
     (case promise_state (trace s) p of None \<Rightarrow> None | Some r \<Rightarrow> Some (r, s, []))"
| "await parse p (e # es) s =
     (case promise_state (trace s) p of
        None \<Rightarrow> await parse p es (step parse e s)
      | Some r \<Rightarrow> Some (r, s, e # es))"

section \<open>The credential store (\<open>TVDatabase\<close>, src/tv/database.ts)\<close>

text \<open>
  The table \<open>tv_credentials\<close> is the list of its rows, \<open>ip\<close> being the primary key. A
  timestamp is a number (the source stores ISO-8601 texts of one fixed width, whose text
  order is the order of time). \<open>client_key\<close> holds whatever value the caller passes.
\<close>

record row =
  ip :: string
  client_key :: jsval
  secure :: nat
  name :: "string option"
  created_at :: nat
  last_used :: nat
  is_valid :: nat

record TVCredential =
  cred_ip :: string
  cred_clientKey :: jsval
  cred_secure :: bool
  cred_name :: "string option"
  createdAt :: nat
  lastUsed :: nat
  isValid :: bool

text \<open>The object every reading method builds from a row; \<open>row.name || undefined\<close>.\<close>

definition credential_of :: "row \<Rightarrow> TVCredential" where
  "credential_of r =
     \<lparr> cred_ip = ip r, cred_clientKey = client_key r, cred_secure = (secure r = 1),
       cred_name = (case name r of None \<Rightarrow> None | Some n \<Rightarrow> if n = [] then None else Some n),
       createdAt = created_at r, lastUsed = last_used r, isValid = (is_valid r = 1) \<rparr>"

text \<open>\<open>INSERT ... ON CONFLICT(ip) DO UPDATE\<close>; the first argument is \<open>new Date()\<close>.\<close>

definition saveCredentials :: "nat \<Rightarrow> string \<Rightarrow> jsval \<Rightarrow> bool \<Rightarrow> string option \<Rightarrow> row list \<Rightarrow> row list" where
  "saveCredentials now i key sec nm rows =
     (if \<exists>r \<in> set rows. ip r = i then
        map (\<lambda>r. if ip r = i
                  then r\<lparr>client_key := key, secure := (if sec then 1 else 0), last_used := now,
                         is_valid := 1, name := (case nm of None \<Rightarrow> name r | Some n \<Rightarrow> Some n)\<rparr>
                  else r) rows
      else rows @ [\<lparr> ip = i, client_key = key, secure = (if sec then 1 else 0), name = nm,
                     created_at = now, last_used = now, is_valid = 1 \<rparr>])"

definition updateLastUsed :: "nat \<Rightarrow> string \<Rightarrow> row list \<Rightarrow> row list" where
  "updateLastUsed now i rows = map (\<lambda>r. if ip r = i then r\<lparr>last_used := now\<rparr> else r) rows"

text \<open>\<open>getCredentials\<close> returns the object built from the row it read, and the table.\<close>

definition getCredentials :: "nat \<Rightarrow> string \<Rightarrow> row list \<Rightarrow> TVCredential option \<times> row list" where
  "getCredentials now i rows =
     (case find (\<lambda>r. ip r = i) rows of
        None \<Rightarrow> (None, rows)
      | Some r \<Rightarrow> (Some (credential_of r), updateLastUsed now i rows))"

definition invalidateCredentials :: "string \<Rightarrow> row list \<Rightarrow> row list" where
  "invalidateCredentials i rows = map (\<lambda>r. if ip r = i then r\<lparr>is_valid := 0\<rparr> else r) rows"

definition deleteCredentials :: "string \<Rightarrow> row list \<Rightarrow> row list" where
  "deleteCredentials i rows = filter (\<lambda>r. ip r \<noteq> i) rows"

text \<open>
  \<open>ORDER BY last_used DESC LIMIT 1\<close>: a row whose \<open>last_used\<close> is greatest; among equal
  ones SQL leaves the choice open, the model takes the first in table order.
\<close>

fun most_recent :: "row list \<Rightarrow> row option" where
  "most_recent [] = None"
| "most_recent (r # rs) =
     (case most_recent rs of
        None \<Rightarrow> Some r
      | Some r' \<Rightarrow> if last_used r < last_used r' then Some r' else Some r)"

definition getMostRecentTV :: "row list \<Rightarrow> TVCredential option" where
  "getMostRecentTV rows = map_option credential_of (most_recent (filter (\<lambda>r. is_valid r = 1) rows))"

section \<open>The orchestrator (src/index.ts)\<close>

text \<open>
  The module's variables. Client objects live in \<open>clients\<close> and are named by their
  index, so that \<open>tvClient\<close> and an entry of \<open>pendingPairings\<close> can name the same
  object. \<open>tvCommands\<close> is the client that the \<open>TVCommands\<close> object wraps. \<open>journal\<close>
  records the calls made to the credential store and the line printed before each
  connection attempt.
\<close>

datatype action =
    Connecting string bool
  | DbGet string
  | DbSave string jsval bool
  | DbInvalidate string
  | DbMostRecent

record server =
  clients :: "nat \<Rightarrow> session"
  next_client :: nat
  tvClient :: "nat option"
  tvCommands :: "nat option"
  currentTVIP :: "string option"
  pendingPairings :: "string \<rightharpoonup> (nat \<times> bool)"
  db :: "row list"
  journal :: "action list"

definition alloc :: "session \<Rightarrow> server \<Rightarrow> nat \<times> server" where
  "alloc c st =
     (next_client st,
      st\<lparr>clients := (clients st)(next_client st := c), next_client := Suc (next_client st)\<rparr>)"

definition journal_add :: "action \<Rightarrow> server \<Rightarrow> server" where
  "journal_add a st = st\<lparr>journal := journal st @ [a]\<rparr>"

text \<open>\<open>String.prototype.includes\<close>.\<close>

fun starts_with :: "string \<Rightarrow> string \<Rightarrow> bool" where
  "starts_with s [] = True"
| "starts_with [] (c # cs) = False"
| "starts_with (d # ds) (c # cs) = (d = c \<and> starts_with ds cs)"

fun js_includes :: "string \<Rightarrow> string \<Rightarrow> bool" where
  "js_includes [] pat = starts_with [] pat"
| "js_includes (d # ds) pat = (starts_with (d # ds) pat \<or> js_includes ds pat)"

text \<open>The \<open>catch\<close> block of \<open>autoReconnect\<close>, given \<open>err.message\<close>.\<close>

definition reconnect_failed :: "string \<Rightarrow> string \<Rightarrow> server \<Rightarrow> server" where
  "reconnect_failed i message st =
     (if js_includes message ''401'' \<or> js_includes message ''authentication''
      then journal_add (DbInvalidate i) (st\<lparr>db := invalidateCredentials i (db st)\<rparr>)
      else st)"

text \<open>
  \<open>autoReconnect\<close>. \<open>uuid\<close> is the id that \<open>registerWithStoredKey\<close> draws, \<open>now\<close> the
  clock, \<open>evs\<close> what the socket and the timers do while the function waits. The result is
  \<open>None\<close> when a promise it waits for is not settled by these events.
\<close>

definition autoReconnect :: "(string \<Rightarrow> jsval option) \<Rightarrow> string \<Rightarrow> nat \<Rightarrow> string \<Rightarrow> event list \<Rightarrow>
    server \<Rightarrow> (bool \<times> server \<times> event list) option" where
  "autoReconnect parse uuid now i evs st =
     (let (credentials, rows) = getCredentials now i (db st);
          st1 = journal_add (DbGet i) (st\<lparr>db := rows\<rparr>)
      in case credentials of
           None \<Rightarrow> Some (False, st1, evs)
         | Some cr \<Rightarrow>
             if \<not> isValid cr then Some (False, st1, evs)
             else
               (let (r, st2) = alloc (new_LGTVClient (cred_ip cr) (cred_secure cr) (cred_clientKey cr)) st1;
                    st3 = st2\<lparr>tvClient := Some r\<rparr>;
                    (p, c1) = connect (clients st3 r)
                in case await parse p evs c1 of
                     None \<Rightarrow> None
                   | Some (Rejected err, c2, evs1) \<Rightarrow>
                       Some (False, reconnect_failed i err (st3\<lparr>clients := (clients st3)(r := c2)\<rparr>), evs1)
                   | Some (Fulfilled _, c2, evs1) \<Rightarrow>
                       (let (p2, c3) = registerWithStoredKey uuid c2
                        in case await parse p2 evs1 c3 of
                             None \<Rightarrow> None
                           | Some (Rejected err, c4, evs2) \<Rightarrow>
                               Some (False,
                                     reconnect_failed i err (st3\<lparr>clients := (clients st3)(r := c4)\<rparr>),
                                     evs2)
                           | Some (Fulfilled _, c4, evs2) \<Rightarrow>
                               Some (True,
                                     st3\<lparr>clients := (clients st3)(r := c4), tvCommands := Some r,
                                         currentTVIP := Some i\<rparr>,
                                     evs2))))"

definition ensureConnection :: "(string \<Rightarrow> jsval option) \<Rightarrow> string \<Rightarrow> nat \<Rightarrow> event list \<Rightarrow>
    server \<Rightarrow> (bool \<times> server \<times> event list) option" where
  "ensureConnection parse uuid now evs st =
     (if tvClient st \<noteq> None \<and> tvCommands st \<noteq> None then Some (True, st, evs)
      else
        (let st1 = journal_add DbMostRecent st
         in case getMostRecentTV (db st1) of
              Some recentTV \<Rightarrow> autoReconnect parse uuid now (cred_ip recentTV) evs st1
            | None \<Rightarrow> Some (False, st1, evs)))"

subsection \<open>\<open>POST /api/connect\<close>\<close>

text \<open>
  The request body: \<open>ip\<close>, \<open>secure\<close> (\<open>None\<close> is \<open>undefined\<close>) and \<open>force\<close>.
  A response is the HTTP status with the JSON body.
\<close>

record connect_body =
  body_ip :: "string option"
  body_secure :: "bool option"
  body_force :: bool

type_synonym response = "nat \<times> jsval"

text \<open>
  One turn of the loop over \<open>modes\<close>: the line printed, the client created and
  connected. \<open>Some err\<close> is the inner \<open>catch\<close>, which has set \<open>tvClient = null\<close>.
\<close>

definition attempt :: "(string \<Rightarrow> jsval option) \<Rightarrow> string \<Rightarrow> jsval \<Rightarrow> bool \<Rightarrow> event list \<Rightarrow> server \<Rightarrow>
    (string option \<times> server \<times> event list) option" where
  "attempt parse i key trySecure evs st =
     (let st1 = journal_add (Connecting i trySecure) st;
          (r, st2) = alloc (new_LGTVClient i trySecure key) st1;
          st3 = st2\<lparr>tvClient := Some r\<rparr>;
          (p, c1) = connect (clients st3 r)
      in case await parse p evs c1 of
           None \<Rightarrow> None
         | Some (Fulfilled _, c2, evs1) \<Rightarrow>
             Some (None, st3\<lparr>clients := (clients st3)(r := c2)\<rparr>, evs1)
         | Some (Rejected err, c2, evs1) \<Rightarrow>
             Some (Some err, st3\<lparr>clients := (clients st3)(r := c2), tvClient := None\<rparr>, evs1))"

text \<open>
  The loop. Its variables are \<open>tvClient\<close> (in the server), \<open>useSecure\<close> and
  \<open>connectionError\<close>. \<open>Inl err\<close> is the \<open>throw err\<close> of the inner \<open>catch\<close> when the
  caller named the mode; \<open>Inr\<close> is the loop left by \<open>break\<close> or by running out of modes.
\<close>

fun try_modes :: "(string \<Rightarrow> jsval option) \<Rightarrow> string \<Rightarrow> jsval \<Rightarrow> bool option \<Rightarrow> bool list \<Rightarrow>
    bool \<Rightarrow> string option \<Rightarrow> event list \<Rightarrow> server \<Rightarrow>
    ((string + bool \<times> string option) \<times> server \<times> event list) option" where
  "try_modes parse i key sec [] useSecure connectionError evs st =
     Some (Inr (useSecure, connectionError), st, evs)"
| "try_modes parse i key sec (trySecure # modes) useSecure connectionError evs st =
     (case attempt parse i key trySecure evs st of
        None \<Rightarrow> None
      | Some (None, st1, evs1) \<Rightarrow> Some (Inr (trySecure, None), st1, evs1)
      | Some (Some err, st1, evs1) \<Rightarrow>
          if sec \<noteq> None then Some (Inl err, st1, evs1)
          else try_modes parse i key sec modes useSecure (Some err) evs1 st1)"

text \<open>The outer \<open>catch\<close>: the three variables are cleared and the error is the answer.\<close>

definition connect_failed :: "string \<Rightarrow> server \<Rightarrow> response \<times> server" where
  "connect_failed message st =
     ((500, JObj [(''success'', JBool False), (''error'', JStr message)]),
      st\<lparr>tvClient := None, tvCommands := None, currentTVIP := None\<rparr>)"

text \<open>
  The handler after the connection is made: \<open>initiateRegistration\<close>, then the pending
  pairing, or the credentials saved at once when no PIN is asked for.
\<close>

definition pair_or_save :: "(string \<Rightarrow> jsval option) \<Rightarrow> string \<Rightarrow> nat \<Rightarrow> string \<Rightarrow> bool \<Rightarrow> nat \<Rightarrow>
    event list \<Rightarrow> server \<Rightarrow> (response \<times> server \<times> event list) option" where
  "pair_or_save parse uuid now i useSecure r evs st =
     (let (p, c1) = initiateRegistration uuid (clients st r)
      in case await parse p evs c1 of
           None \<Rightarrow> None
         | Some (Rejected err, c2, evs1) \<Rightarrow>
             (let (res, st1) = connect_failed err (st\<lparr>clients := (clients st)(r := c2)\<rparr>)
              in Some (res, st1, evs1))
         | Some (Fulfilled result, c2, evs1) \<Rightarrow>
             (let st1 = st\<lparr>clients := (clients st)(r := c2)\<rparr>
              in if truthy (opt_prop result ''requiresPIN'') then
                   Some ((200, JObj [(''success'', JBool True),
                                     (''message'', JStr ''PIN displayed on TV. Enter PIN using /api/pair endpoint.''),
                                     (''ip'', JStr i), (''secure'', JBool useSecure),
                                     (''requiresPIN'', JBool True)]),
                         st1\<lparr>pendingPairings := (pendingPairings st1)(i \<mapsto> (r, useSecure)),
                             currentTVIP := Some i\<rparr>,
                         evs1)
                 else if truthy (clientKey c2) then
                   Some ((200, JObj [(''success'', JBool True),
                                     (''message'', JStr ''Connected and authenticated''),
                                     (''ip'', JStr i), (''secure'', JBool useSecure),
                                     (''clientKey'', clientKey c2)]),
                         journal_add (DbSave i (clientKey c2) useSecure)
                           (st1\<lparr>db := saveCredentials now i (clientKey c2) useSecure None (db st1),
                                tvCommands := Some r, currentTVIP := Some i\<rparr>),
                         evs1)
                 else
                   (let (res, st2) = connect_failed ''Registration failed'' st1
                    in Some (res, st2, evs1))))"

text \<open>
  The handler up to the loop: an existing client is disconnected and dropped, the stored
  credentials are read, and a stored key is used only when the record is valid.
\<close>

definition prepare_connect :: "nat \<Rightarrow> string \<Rightarrow> server \<Rightarrow> TVCredential option \<times> server" where
  "prepare_connect now i st =
     (let st1 = (case tvClient st of
                   Some r \<Rightarrow> st\<lparr>clients := (clients st)(r := disconnect (clients st r)),
                                tvClient := None, tvCommands := None\<rparr>
                 | None \<Rightarrow> st);
          (stored, rows) = getCredentials now i (db st1)
      in (stored, journal_add (DbGet i) (st1\<lparr>db := rows\<rparr>)))"

definition stored_key :: "TVCredential option \<Rightarrow> jsval" where
  "stored_key stored =
     (case stored of
        Some cr \<Rightarrow> if isValid cr then cred_clientKey cr else JUndefined
      | None \<Rightarrow> JUndefined)"

definition both_failed :: "string option \<Rightarrow> string" where
  "both_failed connectionError =
     ''Failed to connect to TV. Tried both secure and non-secure modes. Last error: '' @
     (case connectionError of Some m \<Rightarrow> m | None \<Rightarrow> ''undefined'')"

text \<open>
  The handler from there on, for a request that is not answered at once: the loop, then
  the registration. \<open>uuid\<close> is the id drawn by \<open>initiateRegistration\<close>; \<open>now\<close> and
  \<open>later\<close> are the clock when the stored credentials are read and when new ones are
  saved.
\<close>

definition connect_new :: "(string \<Rightarrow> jsval option) \<Rightarrow> string \<Rightarrow> nat \<Rightarrow> nat \<Rightarrow> string \<Rightarrow> bool option \<Rightarrow>
    event list \<Rightarrow> server \<Rightarrow> (response \<times> server \<times> event list) option" where
  "connect_new parse uuid now later i sec evs st =
     (let (stored, st2) = prepare_connect now i st;
          key = stored_key stored;
          useSecure = (case sec of
                         Some b \<Rightarrow> b
                       | None \<Rightarrow> (case stored of Some cr \<Rightarrow> cred_secure cr | None \<Rightarrow> True));
          modes = (if sec \<noteq> None then [useSecure] else [True, False])
      in case try_modes parse i key sec modes useSecure None evs st2 of
           None \<Rightarrow> None
         | Some (Inl err, st3, evs1) \<Rightarrow>
             (let (res, st4) = connect_failed err st3 in Some (res, st4, evs1))
         | Some (Inr (useSecure1, connectionError), st3, evs1) \<Rightarrow>
             (case tvClient st3 of
                None \<Rightarrow>
                  (let (res, st4) = connect_failed (both_failed connectionError) st3
                   in Some (res, st4, evs1))
              | Some r \<Rightarrow>
                  (if connectionError \<noteq> None then
                     (let (res, st4) = connect_failed (both_failed connectionError) st3
                      in Some (res, st4, evs1))
                   else pair_or_save parse uuid later i useSecure1 r evs1 st3)))"

text \<open>The handler: the two answers given at once, then the rest.\<close>

definition api_connect :: "(string \<Rightarrow> jsval option) \<Rightarrow> string \<Rightarrow> nat \<Rightarrow> nat \<Rightarrow> connect_body \<Rightarrow>
    event list \<Rightarrow> server \<Rightarrow> (response \<times> server \<times> event list) option" where
  "api_connect parse uuid now later body evs st =
     (if \<not> id_truthy (body_ip body) then
        Some ((400, JObj [(''success'', JBool False), (''error'', JStr ''IP address required'')]), st, evs)
      else
        (let i = (case body_ip body of Some x \<Rightarrow> x | None \<Rightarrow> []) in
         if tvClient st \<noteq> None \<and> currentTVIP st = Some i \<and> \<not> body_force body then
           Some ((200, JObj [(''success'', JBool True), (''message'', JStr ''Already connected''),
                             (''ip'', JStr i),
                             (''clientKey'', (case tvClient st of
                                                Some r \<Rightarrow> clientKey (clients st r)
                                              | None \<Rightarrow> JUndefined))]),
                 st, evs)
         else connect_new parse uuid now later i (body_secure body) evs st))"


subsection \<open>\<open>POST /api/pair\<close> and \<open>POST /api/disconnect\<close>\<close>

record pair_body =
  pair_pin :: "string option"
  pair_ip :: "string option"

definition api_pair :: "(string \<Rightarrow> jsval option) \<Rightarrow> string \<Rightarrow> nat \<Rightarrow> pair_body \<Rightarrow> event list \<Rightarrow>
    server \<Rightarrow> (response \<times> server \<times> event list) option" where
  "api_pair parse uuid now body evs st =
     (if \<not> id_truthy (pair_pin body) then
        Some ((400, JObj [(''success'', JBool False), (''error'', JStr ''PIN is required'')]), st, evs)
      else
        (let pin = (case pair_pin body of Some x \<Rightarrow> x | None \<Rightarrow> []);
             targetIP = (if id_truthy (pair_ip body) then pair_ip body else currentTVIP st)
         in if \<not> id_truthy targetIP then
              Some ((400, JObj [(''success'', JBool False),
                                (''error'', JStr ''No active pairing session. Call /api/connect first.'')]),
                    st, evs)
            else
              (let t = (case targetIP of Some x \<Rightarrow> x | None \<Rightarrow> [])
               in case pendingPairings st t of
                    None \<Rightarrow>
                      Some ((400, JObj [(''success'', JBool False),
                                        (''error'', JStr (''No pending pairing for '' @ t @
                                                          ''. Call /api/connect first.''))]),
                            st, evs)
                  | Some (r, sec) \<Rightarrow>
                      (let (p, c1) = completePairing uuid pin (clients st r)
                       in case await parse p evs c1 of
                            None \<Rightarrow> None
                          | Some (Rejected err, c2, evs1) \<Rightarrow>
                              Some ((500, JObj [(''success'', JBool False), (''error'', JStr err)]),
                                    st\<lparr>clients := (clients st)(r := c2)\<rparr>, evs1)
                          | Some (Fulfilled key, c2, evs1) \<Rightarrow>
                              Some ((200, JObj [(''success'', JBool True),
                                                (''message'', JStr ''Successfully paired with TV''),
                                                (''ip'', JStr t), (''clientKey'', key)]),
                                    journal_add (DbSave t key sec)
                                      (st\<lparr>clients := (clients st)(r := c2),
                                          db := saveCredentials now t key sec None (db st),
                                          tvClient := Some r, tvCommands := Some r,
                                          currentTVIP := Some t,
                                          pendingPairings := map_delete (pendingPairings st) t\<rparr>),
                                    evs1)))))"

definition api_disconnect :: "server \<Rightarrow> response \<times> server" where
  "api_disconnect st =
     (let st1 = (case tvClient st of
                   Some r \<Rightarrow> st\<lparr>clients := (clients st)(r := disconnect (clients st r)),
                                tvClient := None, tvCommands := None, currentTVIP := None\<rparr>
                 | None \<Rightarrow> st)
      in ((200, JObj [(''success'', JBool True), (''message'', JStr ''Disconnected'')]),
          st1\<lparr>pendingPairings := Map.empty\<rparr>))"

section \<open>Requests in flight\<close>


fun settle_effect :: "nat \<Rightarrow> settlement \<Rightarrow> effect" where
  "settle_effect p (Fulfilled v) = Resolve p v"
| "settle_effect p (Rejected m) = Reject p m"


text \<open>
  The ids drawn in a run for entries of \<open>pendingRequests\<close>: by \<open>request\<close>, and by the two
  registration methods. \<open>requests_of\<close> pairs each \<open>request\<close> call's id with the promise
  the call returned.
\<close>

fun request_ids :: "event list \<Rightarrow> string list" where
  "request_ids [] = []"
| "request_ids (CallRequest u uri pl # es) = u # request_ids es"
| "request_ids (e # es) = request_ids es"





text \<open>
  The invariant of such a run, for the requests \<open>iss\<close> issued and the registration ids
  \<open>fids\<close> drawn so far. An entry of \<open>pendingRequests\<close> is stored under its own id; it is
  the closure of an issued request whose promise has not been touched, or a registration
  closure whose promise is no request's. An armed timer belongs to an issued request, or
  to a promise that is no request's. No request's promise has seen more than one call of
  \<open>resolve\<close>/\<open>reject\<close>.
\<close>

fun entry_ok :: "(string \<times> nat) list \<Rightarrow> string list \<Rightarrow> effect list \<Rightarrow> nat \<Rightarrow> string \<Rightarrow> handler \<Rightarrow> bool" where
  "entry_ok iss fids tr n k (RequestHandler k' p) =
     (k' = k \<and> (k, p) \<in> set iss \<and> (\<forall>e\<in>set tr. \<not> settles p e))"
| "entry_ok iss fids tr n k (InitRegHandler k' p) =
     (k' = k \<and> k \<in> set fids \<and> p \<notin> snd ` set iss \<and> p < n)"
| "entry_ok iss fids tr n k (StoredKeyHandler k' p) =
     (k' = k \<and> k \<in> set fids \<and> p \<notin> snd ` set iss \<and> p < n)"

fun timer_ok :: "(string \<times> nat) list \<Rightarrow> string list \<Rightarrow> nat \<Rightarrow> timer \<Rightarrow> bool" where
  "timer_ok iss fids n (ConnectTimeout p) = False"
| "timer_ok iss fids n (RequestTimeout k p) = ((k, p) \<in> set iss)"
| "timer_ok iss fids n (RegistrationTimeout k p) = (k \<in> set fids \<and> p \<notin> snd ` set iss \<and> p < n)"
| "timer_ok iss fids n (AuthTimeout k p) = (k \<in> set fids \<and> p \<notin> snd ` set iss \<and> p < n)"
| "timer_ok iss fids n (PairingPoll h p) = (p \<notin> snd ` set iss \<and> p < n)"
| "timer_ok iss fids n (PairingTimeout h p) = (p \<notin> snd ` set iss \<and> p < n)"

definition Inv :: "(string \<times> nat) list \<Rightarrow> string list \<Rightarrow> ready_state option \<Rightarrow> (string \<rightharpoonup> handler) \<Rightarrow>
    (nat \<times> nat \<times> bool \<times> timer) list \<Rightarrow> effect list \<Rightarrow> nat \<Rightarrow> bool" where
  "Inv iss fids w P T tr n \<longleftrightarrow>
     w = Some OPEN \<and>
     (\<forall>k h. P k = Some h \<longrightarrow> entry_ok iss fids tr n k h) \<and>
     (\<forall>t\<in>set T. timer_ok iss fids n (snd (snd (snd t)))) \<and>
     (\<forall>kp\<in>set iss. snd kp < n) \<and>
     distinct (map fst iss @ fids) \<and> distinct (map snd iss) \<and>
     (\<forall>kp\<in>set iss. length (filter (settles (snd kp)) tr) \<le> 1) \<and>
     (\<forall>p\<ge>n. \<forall>e\<in>set tr. \<not> settles p e)"



section \<open>Concrete sessions and frames\<close>

text \<open>
  A television at 10.0.0.5, the frames it sends and the value \<open>JSON.parse\<close> gives for
  each. The ids \<open>a\<close>, \<open>b\<close>, \<open>r\<close> stand for the ids \<open>randomUUID()\<close> draws.
\<close>

definition frame_a :: jsval where
  "frame_a = JObj [(''type'', JStr ''response''), (''id'', JStr ''a''),
                   (''payload'', JObj [(''volume'', JNum 7)])]"

definition data_a :: string where
  \<open>data_a = ''{"type":"response","id":"a","payload":{"volume":7}}''\<close>

definition frame_b :: jsval where
  "frame_b = JObj [(''type'', JStr ''response''), (''id'', JStr ''b''),
                   (''payload'', JObj [(''volume'', JNum 9)])]"

definition data_b :: string where
  \<open>data_b = ''{"type":"response","id":"b","payload":{"volume":9}}''\<close>

definition example_parse :: "string \<Rightarrow> jsval option" where
  "example_parse = map_of [(data_a, frame_a), (data_b, frame_b), (''null'', JNull)]"

definition volume_uri :: string where
  "volume_uri = ''ssap://audio/getVolume''"

definition connected_client :: session where
  "connected_client =
     run example_parse [CallConnect, Open_ev] (new_LGTVClient ''10.0.0.5'' True JNull)"

text \<open>One request and one subscription outstanding, under different ids and under one id.\<close>

definition busy_client :: session where
  "busy_client =
     run example_parse [CallRequest ''a'' volume_uri JUndefined, CallSubscribe ''b'' volume_uri 7]
       connected_client"

definition collision_client :: session where
  "collision_client =
     run example_parse [CallRequest ''a'' volume_uri JUndefined, CallSubscribe ''a'' volume_uri 7]
       connected_client"

text \<open>Two rows of the credential table.\<close>

definition example_rows :: "row list" where
  "example_rows =
     [\<lparr> ip = ''10.0.0.5'', client_key = JStr ''key5'', secure = 1, name = None,
         created_at = 100, last_used = 100, is_valid = 1 \<rparr>,
      \<lparr> ip = ''10.0.0.6'', client_key = JStr ''key6'', secure = 0, name = None,
         created_at = 200, last_used = 200, is_valid = 1 \<rparr>]"

text \<open>
  Two requests issued back to back, answered in the opposite order; both timers fire
  afterwards.
\<close>

definition two_requests :: "event list" where
  "two_requests =
     [CallRequest ''a'' volume_uri JUndefined, CallRequest ''b'' volume_uri JUndefined,
      Message data_b, Message data_a, Fire 1, Fire 2]"

text \<open>
  A server with nothing stored. The television refuses the secure port, accepts the
  plain one, and answers the registration by showing a PIN.
\<close>

definition frame_pin :: jsval where
  "frame_pin = JObj [(''type'', JStr ''response''), (''id'', JStr ''r''),
                     (''payload'', JObj [(''pairingType'', JStr ''PIN'')])]"

definition data_pin :: string where
  \<open>data_pin = ''{"type":"response","id":"r","payload":{"pairingType":"PIN"}}''\<close>

text \<open>Two error frames for the registration \<open>r\<close>, one of them without an error text.\<close>

definition frame_refused :: jsval where
  "frame_refused = JObj [(''type'', JStr ''error''), (''id'', JStr ''r''),
                         (''error'', JStr ''500 Application error'')]"

definition data_refused :: string where
  \<open>data_refused = ''{"type":"error","id":"r","error":"500 Application error"}''\<close>

definition frame_error :: jsval where
  "frame_error = JObj [(''type'', JStr ''error''), (''id'', JStr ''r'')]"

definition data_error :: string where
  \<open>data_error = ''{"type":"error","id":"r"}''\<close>

definition frame_401 :: jsval where
  "frame_401 = JObj [(''type'', JStr ''error''), (''id'', JStr ''r''),
                     (''error'', JStr ''401 insufficient permissions'')]"

definition data_401 :: string where
  \<open>data_401 = ''{"type":"error","id":"r","error":"401 insufficient permissions"}''\<close>

definition pairing_parse :: "string \<Rightarrow> jsval option" where
  "pairing_parse =
     map_of [(data_pin, frame_pin), (data_refused, frame_refused), (data_error, frame_error),
             (data_401, frame_401)]"

definition empty_server :: server where
  "empty_server =
     \<lparr> clients = (\<lambda>_. new_LGTVClient [] False JNull), next_client = 0, tvClient = None,
       tvCommands = None, currentTVIP = None, pendingPairings = Map.empty, db = [],
       journal = [] \<rparr>"

definition connect_any :: connect_body where
  "connect_any = \<lparr> body_ip = Some ''10.0.0.5'', body_secure = None, body_force = False \<rparr>"


text \<open>
  A server that holds a valid record for 10.0.0.5, and the same server after
  \<open>POST /api/connect\<close> has been answered with the PIN prompt.
\<close>

definition stale_server :: server where
  "stale_server =
     empty_server\<lparr>db := [\<lparr> ip = ''10.0.0.5'', client_key = JStr ''stale-key'', secure = 1,
                             name = None, created_at = 100, last_used = 100, is_valid = 1 \<rparr>]\<rparr>"

definition awaiting_pin_server :: server where
  "awaiting_pin_server =
     (case api_connect pairing_parse ''r'' 1000 1001 connect_any [Open_ev, Message data_pin]
             stale_server of
        Some (res, st, evs) \<Rightarrow> st
      | None \<Rightarrow> stale_server)"

definition submit_pin :: pair_body where
  "submit_pin = \<lparr> pair_pin = Some ''000000'', pair_ip = None \<rparr>"

text \<open>A session that has connected and been shown the PIN prompt, with no key held.\<close>

definition awaiting_pin :: session where
  "awaiting_pin =
     run pairing_parse [CallConnect, Open_ev, CallInitiateRegistration ''r'', Message data_pin]
       (new_LGTVClient ''10.0.0.5'' True JNull)"

text \<open>
  The same server with nothing stored, after the same PIN prompt; and a server that holds
  the two example rows.
\<close>

definition first_pin_server :: server where
  "first_pin_server =
     (case api_connect pairing_parse ''r'' 1000 1001 connect_any [Open_ev, Message data_pin]
             empty_server of
        Some (res, st, evs) \<Rightarrow> st
      | None \<Rightarrow> empty_server)"

definition stored_server :: server where
  "stored_server = empty_server\<lparr>db := example_rows\<rparr>"

section \<open>Basic facts\<close>

lemma emit_fields [simp]:
  "ws (emit e s) = ws s"
  "pendingRequests (emit e s) = pendingRequests s"
  "subscriptions (emit e s) = subscriptions s"
  "clientKey (emit e s) = clientKey s"
  "pendingRegistrationId (emit e s) = pendingRegistrationId s"
  "pointerSocket (emit e s) = pointerSocket s"
  "pointerSocketPath (emit e s) = pointerSocketPath s"
  "connectPromise (emit e s) = connectPromise s"
  "connected (emit e s) = connected s"
  "connectTimeout (emit e s) = connectTimeout s"
  "timers (emit e s) = timers s"
  "next_timer (emit e s) = next_timer s"
  "next_promise (emit e s) = next_promise s"
  "trace (emit e s) = trace s @ [e]"
  by (simp_all add: emit_def)

lemmas session_defs =
  new_LGTVClient_def connect_def on_open_def new_promise_def setTimeout_def setInterval_def
  clearTimeout_def clearInterval_def set_ready_state_def resolve_def reject_def emit_def
  request_def subscribe_def unsubscribe_def disconnect_def send_def js_or_def Let_def
  handleMessage_def map_has_def map_get_def request_handler_def init_reg_handler_def
  stored_key_handler_def opt_prop_def map_delete_def initiateRegistration_def
  completePairing_def registerWithStoredKey_def registration_payload_def id_truthy_def fire_def

lemmas example_defs =
  connected_client_def busy_client_def collision_client_def example_parse_def
  frame_a_def frame_b_def data_a_def data_b_def volume_uri_def two_requests_def

lemma run_handler_no_callback:
  "run_handler h message s = Some s' \<Longrightarrow>
   \<exists>es. trace s' = trace s @ es \<and> (\<forall>cb v. Callback cb v \<notin> set es)"
  by (cases h)
     (auto simp: request_handler_def init_reg_handler_def stored_key_handler_def
                 resolve_def reject_def emit_def Let_def
           split: if_splits option.splits)

section \<open>Frame dispatch\<close>

text \<open>
  C2. For an inbound frame that parses and whose \<open>id\<close> can be read, the handler takes the
  first step that applies: an id found in \<open>pendingRequests\<close> runs that entry's handler
  (whose exception is caught and logged) and no subscription callback is called; otherwise
  an id found in \<open>subscriptions\<close> calls that callback once with the frame's payload;
  otherwise the frame is logged as unhandled. A frame whose id is in both maps therefore
  runs the pending-request handler only.
\<close>

theorem handleMessage_dispatch_order:
  assumes "parse data = Some message" and "get_prop message ''id'' = Some mid"
  shows "(truthy mid \<and> map_has (pendingRequests s) mid \<longrightarrow>
            (\<exists>h. map_get (pendingRequests s) mid = Some h \<and>
                 handleMessage parse data s =
                   (case run_handler h message (emit (Console (TVMessageLine message)) s) of
                      None \<Rightarrow> emit (Console ParseFailure) (emit (Console (TVMessageLine message)) s)
                    | Some s2 \<Rightarrow> s2)) \<and>
            (\<forall>cb v. Callback cb v \<notin> set (drop (length (trace s)) (trace (handleMessage parse data s)))))
       \<and> (\<not> (truthy mid \<and> map_has (pendingRequests s) mid) \<and>
            truthy mid \<and> map_has (subscriptions s) mid \<longrightarrow>
            (\<exists>cb. map_get (subscriptions s) mid = Some cb \<and>
                  handleMessage parse data s =
                    emit (Callback cb (opt_prop message ''payload''))
                      (emit (Console (TVMessageLine message)) s)))
       \<and> (\<not> (truthy mid \<and> map_has (pendingRequests s) mid) \<and>
            \<not> (truthy mid \<and> map_has (subscriptions s) mid) \<longrightarrow>
            handleMessage parse data s =
              emit (Console (UnhandledMessage message)) (emit (Console (TVMessageLine message)) s))"
proof (intro conjI impI)
  assume a: "truthy mid \<and> map_has (pendingRequests s) mid"
  let ?s1 = "emit (Console (TVMessageLine message)) s"
  from a obtain k h where k: "mid = JStr k" "pendingRequests s k = Some h"
    by (auto simp: map_has_def split: jsval.splits)
  have hm: "handleMessage parse data s =
      (case run_handler h message ?s1 of None \<Rightarrow> emit (Console ParseFailure) ?s1 | Some s2 \<Rightarrow> s2)"
    using assms a k by (simp add: handleMessage_def Let_def map_has_def map_get_def)
  show "\<exists>h. map_get (pendingRequests s) mid = Some h \<and>
         handleMessage parse data s =
           (case run_handler h message ?s1 of None \<Rightarrow> emit (Console ParseFailure) ?s1 | Some s2 \<Rightarrow> s2)"
    using hm k by (auto simp: map_get_def)
  show "\<forall>cb v. Callback cb v \<notin> set (drop (length (trace s)) (trace (handleMessage parse data s)))"
  proof (cases "run_handler h message ?s1")
    case None
    then show ?thesis using hm by simp
  next
    case (Some s2)
    from run_handler_no_callback[OF Some] obtain es where
      "trace s2 = trace ?s1 @ es" "\<forall>cb v. Callback cb v \<notin> set es" by blast
    then show ?thesis using hm Some by simp
  qed
next
  assume a: "\<not> (truthy mid \<and> map_has (pendingRequests s) mid) \<and>
             truthy mid \<and> map_has (subscriptions s) mid"
  then obtain k cb where k: "mid = JStr k" "subscriptions s k = Some cb"
    by (auto simp: map_has_def split: jsval.splits)
  show "\<exists>cb. map_get (subscriptions s) mid = Some cb \<and>
          handleMessage parse data s =
            emit (Callback cb (opt_prop message ''payload'')) (emit (Console (TVMessageLine message)) s)"
    using assms a k by (auto simp: handleMessage_def Let_def map_has_def map_get_def)
next
  assume a: "\<not> (truthy mid \<and> map_has (pendingRequests s) mid) \<and>
             \<not> (truthy mid \<and> map_has (subscriptions s) mid)"
  show "handleMessage parse data s =
          emit (Console (UnhandledMessage message)) (emit (Console (TVMessageLine message)) s)"
    using assms a by (auto simp: handleMessage_def Let_def)
qed

theorem handleMessage_dispatch_order_witness:
  "example_parse data_a = Some frame_a \<and> get_prop frame_a ''id'' = Some (JStr ''a'') \<and>
   truthy (JStr ''a'') \<and> map_has (pendingRequests collision_client) (JStr ''a'') \<and>
   map_has (subscriptions collision_client) (JStr ''a'') \<and>
   (\<forall>cb v. Callback cb v \<notin>
      set (drop (length (trace collision_client))
             (trace (handleMessage example_parse data_a collision_client))))"
proof -
  have h1: "example_parse data_a = Some frame_a"
    by (simp add: example_defs)
  have h2: "get_prop frame_a ''id'' = Some (JStr ''a'')"
    by (simp add: frame_a_def)
  have h3: "truthy (JStr ''a'') \<and> map_has (pendingRequests collision_client) (JStr ''a'')"
    by (simp add: example_defs session_defs)
  have h4: "map_has (subscriptions collision_client) (JStr ''a'')"
    by (simp add: example_defs session_defs)
  from handleMessage_dispatch_order[of example_parse data_a frame_a "JStr ''a''" collision_client]
    h1 h2 h3
  have c: "\<forall>cb v. Callback cb v \<notin>
      set (drop (length (trace collision_client))
             (trace (handleMessage example_parse data_a collision_client)))"
    by blast
  show ?thesis using h1 h2 h3 h4 c by blast
qed

text \<open>
  C10. An inbound message that is not valid JSON, or that parses to a value whose \<open>id\<close>
  cannot be read or is found in neither map, only adds console lines: the handler returns
  normally, and \<open>pendingRequests\<close>, \<open>subscriptions\<close>, the client key and every other
  field of the session are as before.
\<close>

theorem handleMessage_unrecognized_dropped:
  assumes "parse data = None \<or>
           (\<exists>m. parse data = Some m \<and>
                (\<forall>mid. get_prop m ''id'' = Some mid \<longrightarrow>
                   \<not> map_has (pendingRequests s) mid \<and> \<not> map_has (subscriptions s) mid))"
  shows "\<exists>ls. ls \<noteq> [] \<and> handleMessage parse data s = s\<lparr>trace := trace s @ map Console ls\<rparr>"
proof (cases "parse data")
  case None
  then have "handleMessage parse data s = s\<lparr>trace := trace s @ map Console [ParseFailure]\<rparr>"
    by (simp add: handleMessage_def emit_def)
  then show ?thesis by blast
next
  case (Some m)
  show ?thesis
  proof (cases "get_prop m ''id''")
    case None
    then have "handleMessage parse data s =
        s\<lparr>trace := trace s @ map Console [TVMessageLine m, ParseFailure]\<rparr>"
      using Some by (simp add: handleMessage_def emit_def Let_def)
    then show ?thesis by blast
  next
    case (Some mid)
    with assms \<open>parse data = Some m\<close>
    have "\<not> map_has (pendingRequests s) mid" "\<not> map_has (subscriptions s) mid" by auto
    then have "handleMessage parse data s =
        s\<lparr>trace := trace s @ map Console [TVMessageLine m, UnhandledMessage m]\<rparr>"
      using Some \<open>parse data = Some m\<close>
      by (simp add: handleMessage_def Let_def) (simp add: emit_def)
    then show ?thesis by blast
  qed
qed

theorem handleMessage_unrecognized_dropped_witness:
  "example_parse ''{oops'' = None \<and>
   (\<exists>ls. ls \<noteq> [] \<and>
      handleMessage example_parse ''{oops'' busy_client =
        busy_client\<lparr>trace := trace busy_client @ map Console ls\<rparr>)"
proof -
  have h: "example_parse ''{oops'' = None"
    by (simp add: example_defs)
  then have "example_parse ''{oops'' = None \<or>
      (\<exists>m. example_parse ''{oops'' = Some m \<and>
           (\<forall>mid. get_prop m ''id'' = Some mid \<longrightarrow>
              \<not> map_has (pendingRequests busy_client) mid \<and>
              \<not> map_has (subscriptions busy_client) mid))"
    by blast
  from handleMessage_unrecognized_dropped[of example_parse "''{oops''" busy_client] this h
  show ?thesis by blast
qed


section \<open>The credential store\<close>

lemma most_recent_Some:
  "most_recent rs = Some m \<Longrightarrow> m \<in> set rs \<and> (\<forall>x\<in>set rs. last_used x \<le> last_used m)"
proof (induction rs arbitrary: m)
  case Nil
  then show ?case by simp
next
  case (Cons r rs)
  show ?case
  proof (cases "most_recent rs")
    case None
    then have "rs = []" by (cases rs) (auto split: option.splits if_splits)
    with Cons.prems None show ?thesis by simp
  next
    case (Some m')
    from Cons.IH[OF Some] Cons.prems Some show ?thesis
      by (auto split: if_splits)
  qed
qed

lemma most_recent_nonempty: "rs \<noteq> [] \<Longrightarrow> \<exists>m. most_recent rs = Some m"
  by (cases rs) (auto split: option.splits)

lemma find_ip_Some: "find (\<lambda>x. ip x = i) rows = Some r \<Longrightarrow> r \<in> set rows \<and> ip r = i"
  by (induction rows) (auto split: if_splits)

lemma find_updateLastUsed:
  "find (\<lambda>x. ip x = i) rows = Some r \<Longrightarrow>
   find (\<lambda>x. ip x = i) (updateLastUsed now i rows) = Some (r\<lparr>last_used := now\<rparr>)"
  by (induction rows) (auto simp: updateLastUsed_def split: if_splits)

lemma filter_updateLastUsed:
  "filter (\<lambda>x. ip x \<noteq> i) (updateLastUsed now i rows) = filter (\<lambda>x. ip x \<noteq> i) rows"
  by (induction rows) (auto simp: updateLastUsed_def)

text \<open>
  C9. \<open>getCredentials\<close> is not a pure read. For an address that has a row, the object
  returned is built from the row as it was read, so its \<open>lastUsed\<close> is the old
  timestamp, while the table afterwards holds \<open>last_used = now\<close> for that row and every
  other row unchanged. When the row is valid and \<open>now\<close> is later than every stored
  timestamp, \<open>getMostRecentTV\<close> answers with that address afterwards.
\<close>

theorem getCredentials_updates_last_used:
  assumes "find (\<lambda>x. ip x = i) rows = Some r"
  shows "fst (getCredentials now i rows) = Some (credential_of r) \<and>
         lastUsed (credential_of r) = last_used r \<and>
         find (\<lambda>x. ip x = i) (snd (getCredentials now i rows)) = Some (r\<lparr>last_used := now\<rparr>) \<and>
         filter (\<lambda>x. ip x \<noteq> i) (snd (getCredentials now i rows)) = filter (\<lambda>x. ip x \<noteq> i) rows \<and>
         (is_valid r = 1 \<and> (\<forall>x\<in>set rows. last_used x < now) \<longrightarrow>
            (\<exists>c. getMostRecentTV (snd (getCredentials now i rows)) = Some c \<and>
                 cred_ip c = i \<and> lastUsed c = now))"
proof -
  have g: "getCredentials now i rows = (Some (credential_of r), updateLastUsed now i rows)"
    using assms by (simp add: getCredentials_def)
  have recent: "\<exists>c. getMostRecentTV (updateLastUsed now i rows) = Some c \<and>
                    cred_ip c = i \<and> lastUsed c = now"
    if v: "is_valid r = 1" and old: "\<forall>x\<in>set rows. last_used x < now"
  proof -
    let ?rows' = "updateLastUsed now i rows"
    let ?valid = "filter (\<lambda>x. is_valid x = 1) ?rows'"
    from find_ip_Some[OF assms] have rin: "r \<in> set rows" "ip r = i" by auto
    then have "r\<lparr>last_used := now\<rparr> \<in> set ?rows'"
      by (force simp: updateLastUsed_def)
    with v have r'in: "r\<lparr>last_used := now\<rparr> \<in> set ?valid" by simp
    then have "?valid \<noteq> []" by (metis empty_iff empty_set)
    from most_recent_nonempty[OF this] obtain m where m: "most_recent ?valid = Some m" by blast
    from most_recent_Some[OF m] r'in have min: "m \<in> set ?valid" and ge: "now \<le> last_used m"
      by force+
    from min obtain x where x: "x \<in> set rows" "m = (if ip x = i then x\<lparr>last_used := now\<rparr> else x)"
      by (auto simp: updateLastUsed_def)
    have "ip x = i"
    proof (rule ccontr)
      assume "ip x \<noteq> i"
      with x have "last_used m = last_used x" by simp
      with old x ge show False by force
    qed
    with x have "ip m = i" "last_used m = now" by simp_all
    then show ?thesis using m by (simp add: getMostRecentTV_def credential_of_def)
  qed
  show ?thesis
    using g recent find_updateLastUsed[OF assms] filter_updateLastUsed
    by (simp add: credential_of_def)
qed

theorem getCredentials_updates_last_used_witness:
  "find (\<lambda>x. ip x = ''10.0.0.5'') example_rows = Some (example_rows ! 0) \<and>
   map_option cred_ip (getMostRecentTV example_rows) = Some ''10.0.0.6'' \<and>
   map_option lastUsed (fst (getCredentials 300 ''10.0.0.5'' example_rows)) = Some 100 \<and>
   map_option cred_ip (getMostRecentTV (snd (getCredentials 300 ''10.0.0.5'' example_rows)))
     = Some ''10.0.0.5''"
proof -
  have h: "find (\<lambda>x. ip x = ''10.0.0.5'') example_rows = Some (example_rows ! 0)"
    by (simp add: example_rows_def)
  have v: "is_valid (example_rows ! 0) = 1 \<and> (\<forall>x\<in>set example_rows. last_used x < 300)"
    by (simp add: example_rows_def)
  have before: "map_option cred_ip (getMostRecentTV example_rows) = Some ''10.0.0.6''"
    by (simp add: example_rows_def getMostRecentTV_def credential_of_def)
  from getCredentials_updates_last_used[OF h, of 300] v
  have "fst (getCredentials 300 ''10.0.0.5'' example_rows) = Some (credential_of (example_rows ! 0))"
    and "lastUsed (credential_of (example_rows ! 0)) = last_used (example_rows ! 0)"
    and "\<exists>c. getMostRecentTV (snd (getCredentials 300 ''10.0.0.5'' example_rows)) = Some c \<and>
             cred_ip c = ''10.0.0.5'' \<and> lastUsed c = 300"
    by blast+
  moreover have "last_used (example_rows ! 0) = 100" by (simp add: example_rows_def)
  ultimately show ?thesis using h before by auto
qed


section \<open>Disconnect\<close>

text \<open>
  C6, as the code has it. \<open>disconnect\<close> closes the pointer socket and the primary socket
  when they exist and forgets both. It writes no frame and settles no promise, and
  \<open>pendingRequests\<close>, \<open>subscriptions\<close> and the armed timers are as before; an
  outstanding request is rejected later, by its own timer, with \<open>Request timeout\<close>.
\<close>

theorem disconnect_closes_sockets_only:
  "ws (disconnect s) = None \<and> pointerSocket (disconnect s) = None \<and>
   pendingRequests (disconnect s) = pendingRequests s \<and>
   subscriptions (disconnect s) = subscriptions s \<and>
   timers (disconnect s) = timers s \<and>
   trace (disconnect s) =
     trace s @ (if pointerSocket s \<noteq> None then [PointerClose] else []) @
               (if ws s \<noteq> None then [WsClose] else []) \<and>
   (pendingRequests s rid \<noteq> None \<longrightarrow>
      run_timer (RequestTimeout rid p) (disconnect s) =
        reject p ''Request timeout''
          ((disconnect s)\<lparr>pendingRequests := map_delete (pendingRequests s) rid\<rparr>))"
  by (simp add: disconnect_def Let_def emit_def)

theorem disconnect_closes_sockets_only_witness:
  "pendingRequests busy_client ''a'' \<noteq> None \<and>
   pendingRequests (disconnect busy_client) = pendingRequests busy_client \<and>
   trace (disconnect busy_client) = trace busy_client @ [WsClose] \<and>
   run_timer (RequestTimeout ''a'' 1) (disconnect busy_client) =
     reject 1 ''Request timeout''
       ((disconnect busy_client)\<lparr>pendingRequests := map_delete (pendingRequests busy_client) ''a''\<rparr>)"
proof -
  have h: "pendingRequests busy_client ''a'' \<noteq> None"
    by (simp add: example_defs session_defs)
  have w: "ws busy_client \<noteq> None" "pointerSocket busy_client = None"
    by (simp_all add: example_defs session_defs)
  from disconnect_closes_sockets_only[of busy_client "''a''" 1] h w
  show ?thesis by simp
qed

text \<open>
  The claim as written fails on a session with the request \<open>a\<close> and the subscription
  \<open>b\<close> outstanding: after \<open>disconnect\<close> the request is still registered and its promise
  unsettled, and the subscription handle is still there.
\<close>

theorem disconnect_cancels_requests_counterexample:
  "pendingRequests (disconnect busy_client) ''a'' = Some (RequestHandler ''a'' 1) \<and>
   promise_state (trace (disconnect busy_client)) 1 = None \<and>
   subscriptions (disconnect busy_client) ''b'' = Some 7"
  by (simp add: example_defs session_defs)

section \<open>Subscriptions\<close>

lemma run_handler_subscriptions:
  "run_handler h message s = Some s' \<Longrightarrow> subscriptions s' = subscriptions s"
  by (cases h)
     (auto simp: request_handler_def init_reg_handler_def stored_key_handler_def
                 resolve_def reject_def emit_def Let_def
           split: if_splits option.splits)

lemma handleMessage_subscriptions:
  "subscriptions (handleMessage parse data s) = subscriptions s"
  by (auto simp: handleMessage_def Let_def dest!: run_handler_subscriptions
           split: option.splits)

lemma handleMessage_no_callback:
  assumes "parse data = Some m" "get_prop m ''id'' = Some (JStr sid)" "subscriptions s sid = None"
  shows "\<exists>es. trace (handleMessage parse data s) = trace s @ es \<and>
              (\<forall>cb v. Callback cb v \<notin> set es)"
proof (cases "truthy (JStr sid) \<and> map_has (pendingRequests s) (JStr sid)")
  case True
  then obtain h where h: "pendingRequests s sid = Some h" by (auto simp: map_has_def)
  let ?s1 = "emit (Console (TVMessageLine m)) s"
  show ?thesis
  proof (cases "run_handler h m ?s1")
    case None
    then show ?thesis using assms True h
      by (simp add: handleMessage_def Let_def map_has_def map_get_def)
  next
    case (Some s2)
    from run_handler_no_callback[OF Some] obtain es where
      "trace s2 = trace ?s1 @ es" "\<forall>cb v. Callback cb v \<notin> set es" by blast
    then show ?thesis using assms True h Some
      by (simp add: handleMessage_def Let_def map_has_def map_get_def)
  qed
next
  case False
  then show ?thesis using assms
    by (auto simp: handleMessage_def Let_def map_has_def map_get_def)
qed

lemma run_messages_no_callback:
  assumes "\<forall>d\<in>set ds. \<exists>m. parse d = Some m \<and> get_prop m ''id'' = Some (JStr sid)"
    and "subscriptions s sid = None"
  shows "\<exists>es. trace (run parse (map Message ds) s) = trace s @ es \<and>
              (\<forall>cb v. Callback cb v \<notin> set es)"
  using assms
proof (induction ds arbitrary: s)
  case Nil
  then show ?case by simp
next
  case (Cons d ds)
  then obtain m where m: "parse d = Some m" "get_prop m ''id'' = Some (JStr sid)" by auto
  from handleMessage_no_callback[of parse d m sid s] m Cons.prems(2) obtain es1 where
    es1: "trace (handleMessage parse d s) = trace s @ es1" "\<forall>cb v. Callback cb v \<notin> set es1"
    by blast
  have "subscriptions (handleMessage parse d s) sid = None"
    using Cons.prems(2) by (simp add: handleMessage_subscriptions)
  with Cons.IH[of "handleMessage parse d s"] Cons.prems(1) obtain es2 where
    es2: "trace (run parse (map Message ds) (handleMessage parse d s)) =
            trace (handleMessage parse d s) @ es2" "\<forall>cb v. Callback cb v \<notin> set es2"
    by auto
  show ?case using es1 es2 by auto
qed

text \<open>
  C7, as the code has it. While a handle is registered (and no pending request has its
  id), every inbound frame with that id calls the callback once with the frame's payload
  and leaves the handle in place. \<open>unsubscribe\<close> removes the handle first, so frames with
  that id that keep arriving call no callback. It then writes the unsubscribe frame; when
  the socket is absent or not open, \<open>send\<close> throws and \<open>Not connected\<close> reaches the
  caller of \<open>unsubscribe\<close>, the handle being removed all the same.
\<close>

theorem subscription_until_unsubscribe:
  "(subscriptions s sid = Some cb \<and> pendingRequests s sid = None \<and> sid \<noteq> [] \<and>
    parse data = Some m \<and> get_prop m ''id'' = Some (JStr sid) \<longrightarrow>
      handleMessage parse data s =
        emit (Callback cb (opt_prop m ''payload'')) (emit (Console (TVMessageLine m)) s) \<and>
      subscriptions (handleMessage parse data s) sid = Some cb)
   \<and> subscriptions (snd (unsubscribe sid uri s)) sid = None
   \<and> ((\<forall>d\<in>set ds. \<exists>m. parse d = Some m \<and> get_prop m ''id'' = Some (JStr sid)) \<longrightarrow>
        (\<forall>cb v. Callback cb v \<notin>
           set (drop (length (trace (snd (unsubscribe sid uri s))))
                  (trace (run parse (map Message ds) (snd (unsubscribe sid uri s)))))))
   \<and> fst (unsubscribe sid uri s) = (if ws s = Some OPEN then None else Some ''Not connected'')
   \<and> trace (snd (unsubscribe sid uri s)) =
       (if ws s = Some OPEN
        then trace s @ [Send (JObj [(''type'', JStr ''unsubscribe''), (''id'', JStr sid),
                                    (''uri'', JStr uri)])]
        else trace s)"
proof (intro conjI impI)
  assume a: "subscriptions s sid = Some cb \<and> pendingRequests s sid = None \<and> sid \<noteq> [] \<and>
    parse data = Some m \<and> get_prop m ''id'' = Some (JStr sid)"
  then show "handleMessage parse data s =
        emit (Callback cb (opt_prop m ''payload'')) (emit (Console (TVMessageLine m)) s)"
    by (simp add: handleMessage_def Let_def map_has_def map_get_def)
  from a show "subscriptions (handleMessage parse data s) sid = Some cb"
    by (simp add: handleMessage_subscriptions)
next
  show gone: "subscriptions (snd (unsubscribe sid uri s)) sid = None"
    by (simp add: unsubscribe_def send_def Let_def map_delete_def)
  assume "\<forall>d\<in>set ds. \<exists>m. parse d = Some m \<and> get_prop m ''id'' = Some (JStr sid)"
  from run_messages_no_callback[of ds parse sid "snd (unsubscribe sid uri s)"] this gone
  show "\<forall>cb v. Callback cb v \<notin>
           set (drop (length (trace (snd (unsubscribe sid uri s))))
                  (trace (run parse (map Message ds) (snd (unsubscribe sid uri s)))))"
    by auto
next
  show "fst (unsubscribe sid uri s) = (if ws s = Some OPEN then None else Some ''Not connected'')"
    by (simp add: unsubscribe_def send_def Let_def)
  show "trace (snd (unsubscribe sid uri s)) =
       (if ws s = Some OPEN
        then trace s @ [Send (JObj [(''type'', JStr ''unsubscribe''), (''id'', JStr sid),
                                    (''uri'', JStr uri)])]
        else trace s)"
    by (simp add: unsubscribe_def send_def Let_def)
qed

theorem subscription_until_unsubscribe_witness:
  "subscriptions busy_client ''b'' = Some 7 \<and> pendingRequests busy_client ''b'' = None \<and>
   example_parse data_b = Some frame_b \<and> get_prop frame_b ''id'' = Some (JStr ''b'') \<and>
   handleMessage example_parse data_b busy_client =
     emit (Callback 7 (opt_prop frame_b ''payload'')) (emit (Console (TVMessageLine frame_b)) busy_client) \<and>
   (\<forall>cb v. Callback cb v \<notin>
      set (drop (length (trace (snd (unsubscribe ''b'' volume_uri busy_client))))
             (trace (run example_parse (map Message [data_b, data_b])
                       (snd (unsubscribe ''b'' volume_uri busy_client))))))"
proof -
  have h1: "subscriptions busy_client ''b'' = Some 7 \<and> pendingRequests busy_client ''b'' = None"
    by (simp add: example_defs session_defs)
  have h2: "example_parse data_b = Some frame_b"
    by (simp add: example_defs)
  have h3: "get_prop frame_b ''id'' = Some (JStr ''b'')"
    by (simp add: frame_b_def)
  have h4: "\<forall>d\<in>set [data_b, data_b]. \<exists>m. example_parse d = Some m \<and> get_prop m ''id'' = Some (JStr ''b'')"
    using h2 h3 by simp
  have h5: "''b'' \<noteq> []" by simp
  from subscription_until_unsubscribe[of busy_client "''b''" 7 example_parse data_b frame_b
         volume_uri "[data_b, data_b]"] h1 h2 h3 h4 h5
  show ?thesis by blast
qed

text \<open>
  The claim as written fails once the television has closed the socket: \<open>unsubscribe\<close>
  throws.
\<close>

theorem unsubscribe_throws_counterexample:
  "ws (step example_parse (Close_ev 1006 []) busy_client) = Some CLOSED \<and>
   fst (unsubscribe ''b'' volume_uri (step example_parse (Close_ev 1006 []) busy_client))
     = Some ''Not connected''"
  by (simp add: example_defs session_defs on_close_def)



section \<open>Requests in flight\<close>


lemma settles_settle_effect [simp]: "settles q (settle_effect p r) = (q = p)"
  by (cases r) auto



subsection \<open>The invariant under the elementary changes of a session\<close>












lemma Inv_timer:
  assumes "Inv iss fids w P T tr n" and "timer_ok iss fids n t"
  shows "Inv iss fids w P (T @ [(th, ms, rep, t)]) tr n"
  using assms unfolding Inv_def by simp




subsection \<open>What each event does to a connected session\<close>










subsection \<open>Steps that keep the invariant\<close>


















subsection \<open>Runs\<close>












section \<open>Connecting and pairing\<close>


























lemmas pairing_defs =
  empty_server_def connect_any_def pairing_parse_def frame_pin_def data_pin_def
  frame_refused_def data_refused_def frame_error_def data_error_def frame_401_def data_401_def
  stale_server_def stored_server_def example_rows_def submit_pin_def
  prepare_connect_def stored_key_def attempt_def alloc_def journal_add_def getCredentials_def
  updateLastUsed_def credential_of_def saveCredentials_def invalidateCredentials_def
  getMostRecentTV_def connect_url_def on_error_def on_close_def connect_new_def api_connect_def
  pair_or_save_def connect_failed_def both_failed_def api_pair_def autoReconnect_def
  ensureConnection_def reconnect_failed_def

section \<open>Pairing with a PIN\<close>

text \<open>
  C5, at a failing input. The server holds a valid record for 10.0.0.5; \<open>/api/connect\<close>
  gave the stored key to the new client and the television answered with a PIN prompt.
  The PIN \<open>000000\<close> is submitted, the television answers the registration with an error
  frame, and the poll of \<open>completePairing\<close> ticks. The poll finds the registration id
  cleared and the old key still in \<open>clientKey\<close>, so the promise is resolved with the old
  key: the handler answers 200, saves the credentials and installs the session. With
  nothing stored, the same frames end in 500 \<open>Pairing failed\<close> and no save.
\<close>

theorem pairing_error_saved_with_stale_key:
  "map_option (\<lambda>x. (fst (fst x), journal (fst (snd x)), map client_key (db (fst (snd x))),
                     tvClient (fst (snd x))))
     (api_pair pairing_parse ''q'' 2000 submit_pin [Message data_refused, Fire 2]
        awaiting_pin_server)
   = Some (200,
           [DbGet ''10.0.0.5'', Connecting ''10.0.0.5'' True,
            DbSave ''10.0.0.5'' (JStr ''stale-key'') True],
           [JStr ''stale-key''], Some 0) \<and>
   map_option (\<lambda>x. (fst x, journal (fst (snd x)), db (fst (snd x))))
     (api_pair pairing_parse ''q'' 2000 submit_pin [Message data_refused, Fire 2]
        first_pin_server)
   = Some ((500, JObj [(''success'', JBool False), (''error'', JStr ''Pairing failed'')]),
           [DbGet ''10.0.0.5'', Connecting ''10.0.0.5'' True], [])"
  by (simp add: awaiting_pin_server_def first_pin_server_def pairing_defs session_defs)

section \<open>Reconnecting with stored credentials\<close>

text \<open>
  C3, at a failing input. The most recently used valid record is the one of 10.0.0.6. The
  socket opens and the television answers the registration with an error frame that has
  no error text: \<open>registerWithStoredKey\<close> rejects with \<open>Authentication failed\<close>, which
  contains neither \<open>401\<close> nor \<open>authentication\<close> in lower case, so \<open>ensureConnection\<close>
  returns \<open>false\<close> and the record stays valid. An error text with \<open>401\<close> in it does
  invalidate the record.
\<close>

theorem rejected_key_stays_valid:
  "map_option (\<lambda>x. (fst x, journal (fst (snd x)), map is_valid (db (fst (snd x))),
                     promise_state (trace (clients (fst (snd x)) 0)) 1))
     (ensureConnection pairing_parse ''r'' 300 [Open_ev, Message data_error] stored_server)
   = Some (False, [DbMostRecent, DbGet ''10.0.0.6''], [1, 1],
           Some (Rejected ''Authentication failed'')) \<and>
   js_includes ''Authentication failed'' ''authentication'' = False \<and>
   map_option (\<lambda>x. (fst x, journal (fst (snd x)), map is_valid (db (fst (snd x)))))
     (ensureConnection pairing_parse ''r'' 300 [Open_ev, Message data_401] stored_server)
   = Some (False, [DbMostRecent, DbGet ''10.0.0.6'', DbInvalidate ''10.0.0.6''], [1, 0])"
  by (simp add: pairing_defs session_defs)


section \<open>The PIN window\<close>

lemma promise_state_append:
  "promise_state (tr @ es) p =
     (case promise_state tr p of Some r \<Rightarrow> Some r | None \<Rightarrow> promise_state es p)"
  by (induction tr p rule: promise_state.induct) auto

text \<open>
  C8, as the code has it. Two timers bound the PIN flow. \<open>initiateRegistration\<close> arms one
  of 60 s when the register frame is written (not when the PIN is shown): if the
  registration is still pending and the session holds no client key, it removes the
  pending entry and clears \<open>pendingRegistrationId\<close>; its \<open>Registration timeout\<close> goes to
  the promise of \<open>initiateRegistration\<close>, which the PIN prompt has already resolved, so
  that promise keeps its value; with a client key held the timer does nothing. A PIN
  submitted after that is rejected with \<open>No pending registration\<close>, and a submission
  being waited on with \<open>Pairing failed\<close>. \<open>completePairing\<close> arms a poll of 100 ms and
  a timer of 30 s, which rejects with \<open>PIN entry timeout\<close> if the registration is still
  pending, and leaves the pending registration in place.
\<close>

theorem pin_window_timers:
  "(ws s = Some OPEN \<longrightarrow>
      timers (snd (initiateRegistration uuid s)) =
        timers s @ [(next_timer s, 60000, False,
                     RegistrationTimeout uuid (fst (initiateRegistration uuid s)))])
   \<and> (pendingRequests s rid \<noteq> None \<and> \<not> truthy (clientKey s) \<longrightarrow>
        run_timer (RegistrationTimeout rid p) s =
          reject p ''Registration timeout''
            (s\<lparr>pendingRequests := map_delete (pendingRequests s) rid,
               pendingRegistrationId := None\<rparr>))
   \<and> (truthy (clientKey s) \<longrightarrow> run_timer (RegistrationTimeout rid p) s = s)
   \<and> (promise_state (trace s) p \<noteq> None \<longrightarrow>
        promise_state (trace (run_timer (RegistrationTimeout rid p) s)) p = promise_state (trace s) p)
   \<and> (ws s \<noteq> None \<and> pendingRegistrationId s = None \<longrightarrow>
        snd (completePairing uuid pin s) =
          reject (next_promise s) ''No pending registration. Call initiateRegistration() first.''
            (s\<lparr>next_promise := Suc (next_promise s)\<rparr>))
   \<and> (pendingRegistrationId s = None \<and> \<not> truthy (clientKey s) \<longrightarrow>
        run_timer (PairingPoll h q) s = reject q ''Pairing failed'' (clearInterval h s))
   \<and> (ws s = Some OPEN \<and> id_truthy (pendingRegistrationId s) \<longrightarrow>
        timers (snd (completePairing uuid pin s)) =
          timers s @ [(next_timer s, 100, True, PairingPoll (next_timer s) (next_promise s)),
                      (Suc (next_timer s), 30000, False,
                       PairingTimeout (next_timer s) (next_promise s))])
   \<and> (id_truthy (pendingRegistrationId s) \<longrightarrow>
        run_timer (PairingTimeout h q) s = reject q ''PIN entry timeout'' (clearInterval h s) \<and>
        pendingRegistrationId (run_timer (PairingTimeout h q) s) = pendingRegistrationId s \<and>
        pendingRequests (run_timer (PairingTimeout h q) s) = pendingRequests s)"
proof (intro conjI impI)
  assume "ws s = Some OPEN"
  then show "timers (snd (initiateRegistration uuid s)) =
        timers s @ [(next_timer s, 60000, False,
                     RegistrationTimeout uuid (fst (initiateRegistration uuid s)))]"
    by (simp add: initiateRegistration_def new_promise_def send_def setTimeout_def emit_def Let_def)
next
  assume "pendingRequests s rid \<noteq> None \<and> \<not> truthy (clientKey s)"
  then show "run_timer (RegistrationTimeout rid p) s =
          reject p ''Registration timeout''
            (s\<lparr>pendingRequests := map_delete (pendingRequests s) rid,
               pendingRegistrationId := None\<rparr>)"
    by auto
next
  assume "truthy (clientKey s)"
  then show "run_timer (RegistrationTimeout rid p) s = s" by simp
next
  assume "promise_state (trace s) p \<noteq> None"
  then show "promise_state (trace (run_timer (RegistrationTimeout rid p) s)) p
               = promise_state (trace s) p"
    by (auto simp: reject_def emit_def promise_state_append)
next
  assume "ws s \<noteq> None \<and> pendingRegistrationId s = None"
  then show "snd (completePairing uuid pin s) =
          reject (next_promise s) ''No pending registration. Call initiateRegistration() first.''
            (s\<lparr>next_promise := Suc (next_promise s)\<rparr>)"
    by (auto simp add: completePairing_def new_promise_def id_truthy_def Let_def)
next
  assume "pendingRegistrationId s = None \<and> \<not> truthy (clientKey s)"
  then show "run_timer (PairingPoll h q) s = reject q ''Pairing failed'' (clearInterval h s)"
    by (simp add: id_truthy_def clearInterval_def Let_def)
next
  assume "ws s = Some OPEN \<and> id_truthy (pendingRegistrationId s)"
  then show "timers (snd (completePairing uuid pin s)) =
          timers s @ [(next_timer s, 100, True, PairingPoll (next_timer s) (next_promise s)),
                      (Suc (next_timer s), 30000, False,
                       PairingTimeout (next_timer s) (next_promise s))]"
    by (simp add: completePairing_def new_promise_def send_def setInterval_def setTimeout_def
                  emit_def Let_def)
next
  assume a: "id_truthy (pendingRegistrationId s)"
  then show "run_timer (PairingTimeout h q) s = reject q ''PIN entry timeout'' (clearInterval h s)"
    by (simp add: clearInterval_def Let_def)
  from a show "pendingRegistrationId (run_timer (PairingTimeout h q) s) = pendingRegistrationId s"
    by (simp add: clearInterval_def reject_def Let_def)
  from a show "pendingRequests (run_timer (PairingTimeout h q) s) = pendingRequests s"
    by (simp add: clearInterval_def reject_def Let_def)
qed

theorem pin_window_timers_witness:
  "pendingRequests awaiting_pin ''r'' \<noteq> None \<and> \<not> truthy (clientKey awaiting_pin) \<and>
   promise_state (trace awaiting_pin) 1 \<noteq> None \<and>
   run_timer (RegistrationTimeout ''r'' 1) awaiting_pin =
     reject 1 ''Registration timeout''
       (awaiting_pin\<lparr>pendingRequests := map_delete (pendingRequests awaiting_pin) ''r'',
                     pendingRegistrationId := None\<rparr>) \<and>
   promise_state (trace (run_timer (RegistrationTimeout ''r'' 1) awaiting_pin)) 1
     = promise_state (trace awaiting_pin) 1"
proof -
  have h: "pendingRequests awaiting_pin ''r'' \<noteq> None \<and> \<not> truthy (clientKey awaiting_pin)"
    and h2: "promise_state (trace awaiting_pin) 1 \<noteq> None"
    by (simp_all add: awaiting_pin_def pairing_parse_def frame_pin_def data_pin_def session_defs)
  from pin_window_timers[of awaiting_pin "''r''" "''r''" 1] h h2
  show ?thesis by blast
qed

text \<open>
  The claim as written fails on a session that was shown the PIN prompt: when the timer
  of 60 s fires, the promise of \<open>initiateRegistration\<close> stays resolved, and the PIN
  submitted afterwards is rejected with an error that is not a timeout.
\<close>

theorem pin_timeout_error_counterexample:
  "promise_state (trace (run pairing_parse [Fire 1] awaiting_pin)) 1
     = Some (Fulfilled (JObj [(''requiresPIN'', JBool True)])) \<and>
   promise_state (trace (run pairing_parse [Fire 1, CallCompletePairing ''q'' ''482913''] awaiting_pin)) 2
     = Some (Rejected ''No pending registration. Call initiateRegistration() first.'')"
  by (simp add: awaiting_pin_def pairing_parse_def frame_pin_def data_pin_def session_defs)

end
